theory Spec2Isabelle
  imports Main "HOL-Library.Char_ord" "HOL-Library.List_Lexorder"
begin

section \<open>Text and characters\<close>

text \<open>
  The script works on Python \<open>str\<close> values. A text is modelled as a \<open>string\<close>
  (a list of 8-bit characters) and the character tests below are the ones Python applies
  to the ASCII range: \<open>\s\<close> is \<open>str.isspace\<close> (tab to carriage return, the four
  separators 28 to 31 and the blank), \<open>\w\<close> is a letter, a digit or the underscore, and
  \<open>lower\<close>/\<open>upper\<close> touch the 26 letters only. The embedding is about ASCII text
  (SQL scripts); it says nothing about code points above 127.
\<close>

definition in_range :: "char \<Rightarrow> char \<Rightarrow> char \<Rightarrow> bool" where
  "in_range lo hi c = (lo \<le> c \<and> c \<le> hi)"

definition is_space :: "char \<Rightarrow> bool" where
  "is_space c = (in_range (CHR 0x09) (CHR 0x0D) c \<or> in_range (CHR 0x1C) (CHR 0x20) c)"

definition is_upper :: "char \<Rightarrow> bool" where
  "is_upper c = in_range CHR ''A'' CHR ''Z'' c"

definition is_lower :: "char \<Rightarrow> bool" where
  "is_lower c = in_range CHR ''a'' CHR ''z'' c"

definition is_digit :: "char \<Rightarrow> bool" where
  "is_digit c = in_range CHR ''0'' CHR ''9'' c"

definition is_word :: "char \<Rightarrow> bool" where
  "is_word c = (is_lower c \<or> is_upper c \<or> is_digit c \<or> c = CHR ''_'')"

definition lower_char :: "char \<Rightarrow> char" where
  "lower_char c = (if is_upper c then char_of (of_char c + (32::nat)) else c)"

definition upper_char :: "char \<Rightarrow> char" where
  "upper_char c = (if is_lower c then char_of (of_char c - (32::nat)) else c)"

definition lower :: "string \<Rightarrow> string" where
  "lower s = map lower_char s"

definition upper :: "string \<Rightarrow> string" where
  "upper s = map upper_char s"

section \<open>The regular expressions of the script\<close>

text \<open>
  The patterns of the script use literals, character sets, \<open>\s\<close>, \<open>\w\<close>, \<open>.\<close>,
  \<open>\b\<close>, greedy \<open>+\<close> and \<open>*\<close> and lazy \<open>*?\<close> on a single-character item,
  groups, alternation and \<open>?\<close>. The datatype \<open>rx\<close> has exactly these, and
  \<open>rmatch\<close> is the backtracking matcher of the \<open>re\<close> module on them: it lists
  every way the pattern can match at a position, in the order in which backtracking tries
  them, so that the match \<open>re\<close> reports is the head of the list.
\<close>

datatype atom = Chr char | Range char char | Word_class | Space_class

datatype cclass = Dot | Set "atom list"

datatype rx =
    Str string
  | Plus cclass
  | Star cclass
  | Lazy_star cclass
  | Boundary
  | Group nat rx
  | Seq rx rx
  | Alt rx rx
  | Opt rx

record re_flags =
  ignorecase :: bool
  dotall :: bool

fun atom_has :: "atom \<Rightarrow> char \<Rightarrow> bool" where
  "atom_has (Chr a) c = (c = a)"
| "atom_has (Range lo hi) c = in_range lo hi c"
| "atom_has Word_class c = is_word c"
| "atom_has Space_class c = is_space c"

definition atom_match :: "re_flags \<Rightarrow> atom \<Rightarrow> char \<Rightarrow> bool" where
  "atom_match f a c =
     (atom_has a c \<or> (ignorecase f \<and> (atom_has a (lower_char c) \<or> atom_has a (upper_char c))))"

fun class_match :: "re_flags \<Rightarrow> cclass \<Rightarrow> char \<Rightarrow> bool" where
  "class_match f Dot c = (dotall f \<or> c \<noteq> CHR 0x0A)"
| "class_match f (Set as) c = list_ex (\<lambda>a. atom_match f a c) as"

definition lit_match :: "re_flags \<Rightarrow> char \<Rightarrow> char \<Rightarrow> bool" where
  "lit_match f l c = (c = l \<or> (ignorecase f \<and> lower_char c = lower_char l))"

type_synonym caps = "(nat \<times> string) list"

text \<open>
  A position in the text is the character just before it (\<open>None\<close> at the start), which
  \<open>\b\<close> needs, and the text that remains; a match state adds the groups captured so far.
\<close>

type_synonym mstate = "char option \<times> string \<times> caps"

fun str_match :: "re_flags \<Rightarrow> string \<Rightarrow> char option \<Rightarrow> string \<Rightarrow> (char option \<times> string) option" where
  "str_match f [] p s = Some (p, s)"
| "str_match f (l # ls) p [] = None"
| "str_match f (l # ls) p (c # cs) =
     (if lit_match f l c then str_match f ls (Some c) cs else None)"

text \<open>Greedy repetition offers the longest run first, lazy repetition the shortest.\<close>

fun star_greedy :: "(char \<Rightarrow> bool) \<Rightarrow> char option \<Rightarrow> string \<Rightarrow> (char option \<times> string) list" where
  "star_greedy P p [] = [(p, [])]"
| "star_greedy P p (c # cs) =
     (if P c then star_greedy P (Some c) cs @ [(p, c # cs)] else [(p, c # cs)])"

fun plus_greedy :: "(char \<Rightarrow> bool) \<Rightarrow> char option \<Rightarrow> string \<Rightarrow> (char option \<times> string) list" where
  "plus_greedy P p [] = []"
| "plus_greedy P p (c # cs) = (if P c then star_greedy P (Some c) cs else [])"

fun star_lazy :: "(char \<Rightarrow> bool) \<Rightarrow> char option \<Rightarrow> string \<Rightarrow> (char option \<times> string) list" where
  "star_lazy P p [] = [(p, [])]"
| "star_lazy P p (c # cs) =
     (p, c # cs) # (if P c then star_lazy P (Some c) cs else [])"

definition word_before :: "char option \<Rightarrow> bool" where
  "word_before p = (case p of None \<Rightarrow> False | Some c \<Rightarrow> is_word c)"

definition word_after :: "string \<Rightarrow> bool" where
  "word_after s = (case s of [] \<Rightarrow> False | c # _ \<Rightarrow> is_word c)"

fun rmatch :: "re_flags \<Rightarrow> rx \<Rightarrow> mstate \<Rightarrow> mstate list" where
  "rmatch f (Str w) (p, s, k) =
     (case str_match f w p s of None \<Rightarrow> [] | Some (p', s') \<Rightarrow> [(p', s', k)])"
| "rmatch f (Plus c) (p, s, k) = map (\<lambda>(p', s'). (p', s', k)) (plus_greedy (class_match f c) p s)"
| "rmatch f (Star c) (p, s, k) = map (\<lambda>(p', s'). (p', s', k)) (star_greedy (class_match f c) p s)"
| "rmatch f (Lazy_star c) (p, s, k) = map (\<lambda>(p', s'). (p', s', k)) (star_lazy (class_match f c) p s)"
| "rmatch f Boundary (p, s, k) = (if word_before p \<noteq> word_after s then [(p, s, k)] else [])"
| "rmatch f (Group g r) (p, s, k) =
     map (\<lambda>(p', s', k'). (p', s', (g, take (length s - length s') s) # k')) (rmatch f r (p, s, k))"
| "rmatch f (Seq r1 r2) st = concat (map (rmatch f r2) (rmatch f r1 st))"
| "rmatch f (Alt r1 r2) st = rmatch f r1 st @ rmatch f r2 st"
| "rmatch f (Opt r) st = rmatch f r st @ [st]"

definition first_match :: "re_flags \<Rightarrow> rx \<Rightarrow> char option \<Rightarrow> string \<Rightarrow> mstate option" where
  "first_match f r p s = (case rmatch f r (p, s, []) of [] \<Rightarrow> None | m # _ \<Rightarrow> Some m)"

text \<open>
  \<open>re.sub(pattern, '', text)\<close>: scan from the left; where the pattern matches, drop the
  match and go on after it, otherwise keep the character. (A match of no character
  replaces nothing, and the scan moves one character on.)
\<close>

fun re_sub_empty :: "re_flags \<Rightarrow> rx \<Rightarrow> char option \<Rightarrow> string \<Rightarrow> string" where
  "re_sub_empty f r p [] = []"
| "re_sub_empty f r p (c # cs) =
     (case first_match f r p (c # cs) of
        None \<Rightarrow> c # re_sub_empty f r (Some c) cs
      | Some (p', s', k) \<Rightarrow>
          (if length s' < Suc (length cs) then re_sub_empty f r p' s'
           else c # re_sub_empty f r (Some c) cs))"

text \<open>
  \<open>re.findall(pattern, text)\<close>: the groups of every match of the same scan, from the left,
  each match starting where the one before ended.
\<close>

fun re_findall :: "re_flags \<Rightarrow> rx \<Rightarrow> char option \<Rightarrow> string \<Rightarrow> caps list" where
  "re_findall f r p [] =
     (case first_match f r p [] of None \<Rightarrow> [] | Some (p', s', k) \<Rightarrow> [k])"
| "re_findall f r p (c # cs) =
     (case first_match f r p (c # cs) of
        None \<Rightarrow> re_findall f r (Some c) cs
      | Some (p', s', k) \<Rightarrow>
          k # (if length s' < Suc (length cs) then re_findall f r p' s'
               else re_findall f r (Some c) cs))"

text \<open>The text of group \<open>g\<close> of a match; \<open>findall\<close> gives \<open>''\<close> for a group that took no part.\<close>

definition group :: "caps \<Rightarrow> nat \<Rightarrow> string" where
  "group k g = (case map_of k g of None \<Rightarrow> [] | Some t \<Rightarrow> t)"

definition groups :: "nat \<Rightarrow> caps \<Rightarrow> string list" where
  "groups n k = map (group k) [1..<Suc n]"

fun seqs :: "rx list \<Rightarrow> rx" where
  "seqs [] = Str []"
| "seqs [r] = r"
| "seqs (r # rs) = Seq r (seqs rs)"

fun alts :: "rx list \<Rightarrow> rx" where
  "alts [] = Str []"
| "alts [r] = r"
| "alts (r # rs) = Alt r (alts rs)"

section \<open>SQL cleanup\<close>

text \<open>
  \<^verbatim>\<open>
  def clean_sql(sql_text):
      sql_text = re.sub(r'/\*.*?\*/', '', sql_text, flags=re.DOTALL)
      sql_text = re.sub(r'--.*', '', sql_text)
      return sql_text.lower()
  \<close>
\<close>

definition block_comment_rx :: rx where
  "block_comment_rx = seqs [Str ''/*'', Lazy_star Dot, Str ''*/'']"

definition line_comment_rx :: rx where
  "line_comment_rx = seqs [Str ''--'', Star Dot]"

definition no_flags :: re_flags where
  "no_flags = \<lparr>ignorecase = False, dotall = False\<rparr>"

definition dotall_flag :: re_flags where
  "dotall_flag = \<lparr>ignorecase = False, dotall = True\<rparr>"

definition ignorecase_flag :: re_flags where
  "ignorecase_flag = \<lparr>ignorecase = True, dotall = False\<rparr>"

definition clean_sql :: "string \<Rightarrow> string" where
  "clean_sql sql_text =
     lower (re_sub_empty no_flags line_comment_rx None
              (re_sub_empty dotall_flag block_comment_rx None sql_text))"

section \<open>Python helpers\<close>

datatype error = IndexError

text \<open>\<open>xs[-1]\<close> raises \<open>IndexError\<close> on an empty list.\<close>

definition index_last :: "'a list \<Rightarrow> error + 'a" where
  "index_last xs = (if xs = [] then Inl IndexError else Inr (last xs))"

text \<open>\<open>s.split(sep)\<close> for a one-character separator: the pieces between the separators.\<close>

fun split :: "char \<Rightarrow> string \<Rightarrow> string list" where
  "split sep [] = [[]]"
| "split sep (c # cs) =
     (if c = sep then [] # split sep cs
      else (case split sep cs of [] \<Rightarrow> [[c]] | w # ws \<Rightarrow> (c # w) # ws))"

text \<open>\<open>s.strip()\<close> removes white space at both ends.\<close>

definition strip :: "string \<Rightarrow> string" where
  "strip s = rev (dropWhile is_space (rev (dropWhile is_space s)))"

text \<open>\<open>s.replace(c, '')\<close> for a one-character \<open>c\<close>.\<close>

definition replace_empty :: "char \<Rightarrow> string \<Rightarrow> string" where
  "replace_empty c s = filter (\<lambda>x. x \<noteq> c) s"

definition startswith :: "string \<Rightarrow> string \<Rightarrow> bool" where
  "startswith s pre = (take (length pre) s = pre)"

text \<open>The final dot-segment of a name: what \<open>name.split(".")[-1]\<close> gives when it does not raise.\<close>

definition last_segment :: "string \<Rightarrow> string" where
  "last_segment s = last (split CHR ''.'' s)"

section \<open>Tables and views\<close>

definition BLOCK_KEYWORDS :: "string set" where
  "BLOCK_KEYWORDS = {
     ''IF'', ''EXISTS'', ''THEN'', ''ELSE'', ''END'', ''CASE'', ''WHEN'', ''ON'', ''USING'', ''VALUES'',
     ''SELECT'', ''WHERE'', ''GROUP'', ''ORDER'', ''HAVING'', ''BY'', ''AS'',
     ''AND'', ''OR'', ''NOT'', ''IN'', ''IS'', ''NULL'', ''LIKE'', ''SET'',
     ''BEGIN'', ''DECLARE'', ''RETURN'', ''LOOP'', ''FOR'', ''WHILE'',
     ''BETWEEN'', ''DISTINCT'', ''TOP'', ''LIMIT'', ''FETCH'', ''OVER'',
     ''PARTITION'', ''INNER'', ''LEFT'', ''RIGHT'', ''FULL'', ''OUTER'', ''CROSS'',
     ''UNION'', ''EXCEPT'', ''INTERSECT'', ''ALL'', ''WITH'',
     ''DESC'', ''ASC'', ''INTO''}"

text \<open>
  The pattern of \<open>extract_objects\<close>, read with \<open>re.VERBOSE\<close> (white space in the pattern is
  layout): eleven alternatives, the \<open>n\<close>-th capturing group \<open>n\<close>.
  \<^verbatim>\<open>
        \bfrom\s+([a-z0-9_\.]+)|
        \bjoin\s+([a-z0-9_\.]+)|
        \bupdate\s+([a-z0-9_\.]+)|
        \binsert\s+into\s+(?:transient\s+|temporary\s+)?([a-z0-9_\.]+)|
        \bmerge\s+into\s+(?:transient\s+|temporary\s+)?([a-z0-9_\.]+)|
        \bdelete\s+from\s+([a-z0-9_\.]+)|
        \btruncate\s+table\s+(?:transient\s+|temporary\s+)?([a-z0-9_\.]+)|
        \balter\s+table\s+(?:transient\s+|temporary\s+)?([a-z0-9_\.]+)|
        \bcreate\s+(?:or\s+replace\s+)?(?:transient\s+|temporary\s+)?table\s+([a-z0-9_\.]+)|
        \bcreate\s+(?:or\s+replace\s+)?view\s+([a-z0-9_\.]+)|
        \bdrop\s+table\s+(?:transient\s+|temporary\s+)?([a-z0-9_\.]+)
  \<close>
\<close>

definition ws :: rx where
  "ws = Plus (Set [Space_class])"

definition ident_class :: cclass where
  "ident_class = Set [Range CHR ''a'' CHR ''z'', Range CHR ''0'' CHR ''9'', Chr CHR ''_'', Chr CHR ''.'']"

definition ident :: rx where
  "ident = Plus ident_class"

definition modifier :: rx where
  "modifier = Opt (Alt (Seq (Str ''transient'') ws) (Seq (Str ''temporary'') ws))"

definition or_replace :: rx where
  "or_replace = seqs [Str ''or'', ws, Str ''replace'', ws]"

definition object_rules :: "rx list" where
  "object_rules = [
     seqs [Boundary, Str ''from'', ws, Group 1 ident],
     seqs [Boundary, Str ''join'', ws, Group 2 ident],
     seqs [Boundary, Str ''update'', ws, Group 3 ident],
     seqs [Boundary, Str ''insert'', ws, Str ''into'', ws, modifier, Group 4 ident],
     seqs [Boundary, Str ''merge'', ws, Str ''into'', ws, modifier, Group 5 ident],
     seqs [Boundary, Str ''delete'', ws, Str ''from'', ws, Group 6 ident],
     seqs [Boundary, Str ''truncate'', ws, Str ''table'', ws, modifier, Group 7 ident],
     seqs [Boundary, Str ''alter'', ws, Str ''table'', ws, modifier, Group 8 ident],
     seqs [Boundary, Str ''create'', ws, Opt or_replace, modifier, Str ''table'', ws, Group 9 ident],
     seqs [Boundary, Str ''create'', ws, Opt or_replace, Str ''view'', ws, Group 10 ident],
     seqs [Boundary, Str ''drop'', ws, Str ''table'', ws, modifier, Group 11 ident]]"

definition object_pattern :: rx where
  "object_pattern = alts object_rules"

text \<open>
  \<^verbatim>\<open>
    objects = set()
    for m in matches:
        for obj in m:
            if obj:
                cleaned = obj.strip().replace(";", "").upper()
                if cleaned.split(".")[-1] not in BLOCK_KEYWORDS:
                    objects.add(cleaned)
    return objects
  \<close>
\<close>

definition clean_name :: "string \<Rightarrow> string" where
  "clean_name obj = upper (replace_empty CHR '';'' (strip obj))"

fun add_groups :: "string list \<Rightarrow> string set \<Rightarrow> error + string set" where
  "add_groups [] objects = Inr objects"
| "add_groups (obj # m) objects =
     (if obj \<noteq> [] then
        (let cleaned = clean_name obj in
         case index_last (split CHR ''.'' cleaned) of
           Inl e \<Rightarrow> Inl e
         | Inr seg \<Rightarrow>
             if seg \<notin> BLOCK_KEYWORDS then add_groups m (insert cleaned objects)
             else add_groups m objects)
      else add_groups m objects)"

fun add_matches :: "string list list \<Rightarrow> string set \<Rightarrow> error + string set" where
  "add_matches [] objects = Inr objects"
| "add_matches (m # matches) objects =
     (case add_groups m objects of
        Inl e \<Rightarrow> Inl e
      | Inr objects' \<Rightarrow> add_matches matches objects')"

definition extract_objects :: "string \<Rightarrow> error + string set" where
  "extract_objects sql_text =
     (let matches = map (groups 11) (re_findall ignorecase_flag object_pattern None sql_text)
      in add_matches matches {})"

section \<open>Redundancy\<close>

text \<open>
  A Python set is a HOL set; where the script iterates over one, the model takes the
  elements as a list, in the order of the iteration.
  \<^verbatim>\<open>
  def remove_redundancy(objects):
      schema_objs = {obj for obj in objects if "." in obj}
      noschema_objs = {obj for obj in objects if "." not in obj}
      cleaned_objects = set(schema_objs)
      for obj in noschema_objs:
          if not any(schema_obj.split(".")[-1] == obj for schema_obj in schema_objs):
              cleaned_objects.add(obj)
      return cleaned_objects
  \<close>
\<close>

definition has_dot :: "string \<Rightarrow> bool" where
  "has_dot obj = (CHR ''.'' \<in> set obj)"

fun any_last_segment :: "string \<Rightarrow> string list \<Rightarrow> error + bool" where
  "any_last_segment obj [] = Inr False"
| "any_last_segment obj (schema_obj # rest) =
     (case index_last (split CHR ''.'' schema_obj) of
        Inl e \<Rightarrow> Inl e
      | Inr seg \<Rightarrow> if seg = obj then Inr True else any_last_segment obj rest)"

fun add_bare :: "string list \<Rightarrow> string list \<Rightarrow> string set \<Rightarrow> error + string set" where
  "add_bare schema_objs [] cleaned_objects = Inr cleaned_objects"
| "add_bare schema_objs (obj # rest) cleaned_objects =
     (case any_last_segment obj schema_objs of
        Inl e \<Rightarrow> Inl e
      | Inr found \<Rightarrow>
          if \<not> found then add_bare schema_objs rest (insert obj cleaned_objects)
          else add_bare schema_objs rest cleaned_objects)"

text \<open>The loop, for any order in which the two sets are iterated.\<close>

definition remove_redundancy_from :: "string list \<Rightarrow> string list \<Rightarrow> error + string set" where
  "remove_redundancy_from schema_objs noschema_objs =
     add_bare schema_objs noschema_objs (set schema_objs)"

definition remove_redundancy :: "string list \<Rightarrow> error + string set" where
  "remove_redundancy objects =
     remove_redundancy_from (filter has_dot objects) (filter (\<lambda>obj. \<not> has_dot obj) objects)"

section \<open>Categories\<close>

text \<open>
  \<open>categories\<close> is a \<open>defaultdict(list)\<close>: \<open>categories[key].append(x)\<close> starts from the
  empty list when the key is new.
\<close>

definition append_to :: "(string \<rightharpoonup> string list) \<Rightarrow> string \<Rightarrow> string \<Rightarrow> (string \<rightharpoonup> string list)" where
  "append_to categories key x =
     categories(key \<mapsto> (case categories key of None \<Rightarrow> [] | Some l \<Rightarrow> l) @ [x])"

definition category_of :: "string \<Rightarrow> string" where
  "category_of table_name =
     (if startswith table_name ''LP_'' then ''LP_OBJECTS''
      else if startswith table_name ''DDT_'' then ''DDT_OBJECTS''
      else if startswith table_name ''E_'' then ''E_OBJECTS''
      else if startswith table_name ''SA_'' then ''SA_OBJECTS''
      else if startswith table_name ''DW_'' then ''DW_OBJECTS''
      else ''OTHER Table/Views/SP'' @ [CHR 0x27] @ ''s'')"

text \<open>
  The categories as the specification words them: a table of prefixes in a fixed order of
  priority, the first prefix the name starts with deciding, and a catch-all.
\<close>

definition prefix_table :: "(string \<times> string) list" where
  "prefix_table =
     [(''LP_'', ''LP_OBJECTS''), (''DDT_'', ''DDT_OBJECTS''), (''E_'', ''E_OBJECTS''),
      (''SA_'', ''SA_OBJECTS''), (''DW_'', ''DW_OBJECTS'')]"

definition other_label :: string where
  "other_label = ''OTHER Table/Views/SP'' @ [CHR 0x27] @ ''s''"

definition first_prefix_category :: "string \<Rightarrow> string" where
  "first_prefix_category table_name =
     (case find (\<lambda>(pre, label). startswith table_name pre) prefix_table of
        None \<Rightarrow> other_label
      | Some (pre, label) \<Rightarrow> label)"

fun categorize_loop :: "string list \<Rightarrow> (string \<rightharpoonup> string list) \<Rightarrow> error + (string \<rightharpoonup> string list)" where
  "categorize_loop [] categories = Inr categories"
| "categorize_loop (full_obj # rest) categories =
     (case index_last (split CHR ''.'' full_obj) of
        Inl e \<Rightarrow> Inl e
      | Inr table_name \<Rightarrow>
          categorize_loop rest (append_to categories (category_of table_name) full_obj))"

definition categorize :: "string list \<Rightarrow> error + (string \<rightharpoonup> string list)" where
  "categorize objects = categorize_loop objects Map.empty"

section \<open>Stored procedures\<close>

text \<open>
  \<^verbatim>\<open>
    create_pattern = r'create\s+(or\s+replace\s+)?procedure\s+([\w\.$]+)'
    call_pattern = r'\b(?:exec|execute|call)\s+([\w\.$]+)'
  \<close>
\<close>

definition proc_ident_class :: cclass where
  "proc_ident_class = Set [Word_class, Chr CHR ''.'', Chr CHR ''$'']"

definition proc_ident :: rx where
  "proc_ident = Plus proc_ident_class"

definition create_pattern :: rx where
  "create_pattern =
     seqs [Str ''create'', ws, Opt (Group 1 or_replace), Str ''procedure'', ws, Group 2 proc_ident]"

definition call_pattern :: rx where
  "call_pattern =
     seqs [Boundary, Alt (Str ''exec'') (Alt (Str ''execute'') (Str ''call'')), ws, Group 1 proc_ident]"

text \<open>
  \<^verbatim>\<open>
    procedures = set()
    for _, sp in re.findall(create_pattern, sql_text, flags=re.IGNORECASE):
        procedures.add(sp.upper())
    for sp in re.findall(call_pattern, sql_text, flags=re.IGNORECASE):
        procedures.add(sp.upper())
    return sorted(procedures)
  \<close>
\<close>

fun add_upper :: "string list \<Rightarrow> string set \<Rightarrow> string set" where
  "add_upper [] procedures = procedures"
| "add_upper (sp # rest) procedures = add_upper rest (insert (upper sp) procedures)"

definition created_procedures :: "string \<Rightarrow> string list" where
  "created_procedures sql_text =
     map (\<lambda>k. group k 2) (re_findall ignorecase_flag create_pattern None sql_text)"

definition called_procedures :: "string \<Rightarrow> string list" where
  "called_procedures sql_text =
     map (\<lambda>k. group k 1) (re_findall ignorecase_flag call_pattern None sql_text)"

definition extract_stored_procedures :: "string \<Rightarrow> string list" where
  "extract_stored_procedures sql_text =
     (let procedures = add_upper (created_procedures sql_text) {};
          procedures = add_upper (called_procedures sql_text) procedures
      in sorted_list_of_set procedures)"

section \<open>Properties\<close>

lemma split_not_Nil: "split sep s \<noteq> []"
  by (induction s) (auto split: list.splits)

lemma index_last_split: "index_last (split CHR ''.'' s) = Inr (last_segment s)"
  by (simp add: index_last_def last_segment_def split_not_Nil)

lemma any_last_segment_eq:
  "any_last_segment obj ds = Inr (\<exists>d\<in>set ds. last_segment d = obj)"
  by (induction ds) (auto simp: index_last_split)

lemma add_bare_eq:
  "add_bare ds bs acc = Inr (acc \<union> {b \<in> set bs. \<not> (\<exists>d\<in>set ds. last_segment d = b)})"
  by (induction bs arbitrary: acc) (auto simp: any_last_segment_eq)

lemma remove_redundancy_from_eq:
  "remove_redundancy_from ds bs = Inr (set ds \<union> {b \<in> set bs. \<not> (\<exists>d\<in>set ds. last_segment d = b)})"
  by (simp add: remove_redundancy_from_def add_bare_eq)

lemma remove_redundancy_eq:
  "remove_redundancy objects =
     Inr {x \<in> set objects. has_dot x \<or> \<not> (\<exists>d\<in>set objects. has_dot d \<and> last_segment d = x)}"
  by (auto simp: remove_redundancy_def remove_redundancy_from_eq)

text \<open>
  C2. The resolver keeps every name with a dot, and keeps a name without a dot exactly when
  no name with a dot ends in it; the result is a subset of the input and the same for every
  order in which the sets are iterated. With \<open>SALES.ORDERS\<close> in the input, the
  result has \<open>SALES.ORDERS\<close> and not \<open>ORDERS\<close>.
\<close>

theorem remove_redundancy_prefers_schema:
  "\<exists>R. remove_redundancy objects = Inr R
     \<and> (\<forall>x\<in>set objects. has_dot x \<longrightarrow> x \<in> R)
     \<and> (\<forall>x\<in>set objects. \<not> has_dot x \<longrightarrow>
           (x \<in> R \<longleftrightarrow> \<not> (\<exists>d\<in>set objects. has_dot d \<and> last_segment d = x)))
     \<and> R \<subseteq> set objects
     \<and> (\<forall>objects'. set objects' = set objects \<longrightarrow> remove_redundancy objects' = Inr R)
     \<and> (\<forall>schema_objs noschema_objs.
           set schema_objs = {x \<in> set objects. has_dot x} \<and>
           set noschema_objs = {x \<in> set objects. \<not> has_dot x} \<longrightarrow>
           remove_redundancy_from schema_objs noschema_objs = Inr R)
     \<and> (''SALES.ORDERS'' \<in> set objects \<longrightarrow> ''SALES.ORDERS'' \<in> R \<and> ''ORDERS'' \<notin> R)"
proof -
  let ?R = "{x \<in> set objects. has_dot x \<or> \<not> (\<exists>d\<in>set objects. has_dot d \<and> last_segment d = x)}"
  have seg: "last_segment ''SALES.ORDERS'' = ''ORDERS''"
    by (simp add: last_segment_def)
  have dot: "has_dot ''SALES.ORDERS''" "\<not> has_dot ''ORDERS''"
    by (simp_all add: has_dot_def)
  have 1: "remove_redundancy objects = Inr ?R"
    by (rule remove_redundancy_eq)
  have 2: "\<forall>objects'. set objects' = set objects \<longrightarrow> remove_redundancy objects' = Inr ?R"
    by (simp add: remove_redundancy_eq)
  have 3: "\<forall>schema_objs noschema_objs.
           set schema_objs = {x \<in> set objects. has_dot x} \<and>
           set noschema_objs = {x \<in> set objects. \<not> has_dot x} \<longrightarrow>
           remove_redundancy_from schema_objs noschema_objs = Inr ?R"
    by (auto simp: remove_redundancy_from_eq)
  have 4: "''SALES.ORDERS'' \<in> set objects \<longrightarrow> ''SALES.ORDERS'' \<in> ?R \<and> ''ORDERS'' \<notin> ?R"
    using seg dot by auto
  show ?thesis
    apply (rule exI [of _ ?R])
    using 1 2 3 4 by blast
qed

theorem remove_redundancy_prefers_schema_witness:
  "\<exists>R. remove_redundancy [''ORDERS'', ''SALES.ORDERS'', ''T1''] = Inr R
     \<and> ''SALES.ORDERS'' \<in> R \<and> ''ORDERS'' \<notin> R
     \<and> remove_redundancy [''T1'', ''ORDERS'', ''SALES.ORDERS'', ''T1''] = Inr R
     \<and> remove_redundancy_from [''SALES.ORDERS''] [''T1'', ''ORDERS''] = Inr R"
proof -
  let ?xs = "[''ORDERS'', ''SALES.ORDERS'', ''T1'']"
  obtain R where R: "remove_redundancy ?xs = Inr R"
    "\<forall>objects'. set objects' = set ?xs \<longrightarrow> remove_redundancy objects' = Inr R"
    "\<forall>schema_objs noschema_objs.
           set schema_objs = {x \<in> set ?xs. has_dot x} \<and>
           set noschema_objs = {x \<in> set ?xs. \<not> has_dot x} \<longrightarrow>
           remove_redundancy_from schema_objs noschema_objs = Inr R"
    "''SALES.ORDERS'' \<in> set ?xs \<longrightarrow> ''SALES.ORDERS'' \<in> R \<and> ''ORDERS'' \<notin> R"
    using remove_redundancy_prefers_schema [of ?xs] by blast
  have m: "''SALES.ORDERS'' \<in> set ?xs"
    by simp
  have p: "set [''T1'', ''ORDERS'', ''SALES.ORDERS'', ''T1''] = set ?xs"
    by auto
  have d: "set [''SALES.ORDERS''] = {x \<in> set ?xs. has_dot x}"
    "set [''T1'', ''ORDERS''] = {x \<in> set ?xs. \<not> has_dot x}"
    by (auto simp: has_dot_def)
  have a: "''SALES.ORDERS'' \<in> R \<and> ''ORDERS'' \<notin> R"
    by (rule R(4) [rule_format, OF m])
  have b: "remove_redundancy [''T1'', ''ORDERS'', ''SALES.ORDERS'', ''T1''] = Inr R"
    by (rule R(2) [rule_format, OF p])
  have c: "remove_redundancy_from [''SALES.ORDERS''] [''T1'', ''ORDERS''] = Inr R"
    by (rule R(3) [rule_format, OF conjI [OF d]])
  show ?thesis
    by (rule exI [of _ R]) (intro conjI R(1) a [THEN conjunct1] a [THEN conjunct2] b c)
qed

text \<open>
  C9. The resolver returns a subset of its input, and applied to its own result (whatever
  the order in which that set is iterated) it returns that result again.
\<close>

theorem remove_redundancy_idempotent:
  "\<exists>R. remove_redundancy objects = Inr R \<and> R \<subseteq> set objects
     \<and> (\<forall>resolved. set resolved = R \<longrightarrow> remove_redundancy resolved = Inr R)"
proof -
  let ?R = "{x \<in> set objects. has_dot x \<or> \<not> (\<exists>d\<in>set objects. has_dot d \<and> last_segment d = x)}"
  have "remove_redundancy resolved = Inr ?R" if "set resolved = ?R" for resolved
  proof -
    have "{x \<in> set resolved. has_dot x \<or> \<not> (\<exists>d\<in>set resolved. has_dot d \<and> last_segment d = x)} = ?R"
      unfolding that by blast
    then show ?thesis
      by (simp only: remove_redundancy_eq)
  qed
  moreover have "?R \<subseteq> set objects"
    by blast
  ultimately show ?thesis
    using remove_redundancy_eq [of objects] by blast
qed

theorem remove_redundancy_idempotent_witness:
  "\<exists>R. remove_redundancy [''ORDERS'', ''SALES.ORDERS'', ''T1''] = Inr R
     \<and> R \<subseteq> {''ORDERS'', ''SALES.ORDERS'', ''T1''}
     \<and> set [''T1'', ''SALES.ORDERS''] = R
     \<and> remove_redundancy [''T1'', ''SALES.ORDERS''] = Inr R"
proof -
  obtain R where R: "remove_redundancy [''ORDERS'', ''SALES.ORDERS'', ''T1''] = Inr R"
      "R \<subseteq> set [''ORDERS'', ''SALES.ORDERS'', ''T1'']"
      "\<forall>resolved. set resolved = R \<longrightarrow> remove_redundancy resolved = Inr R"
    using remove_redundancy_idempotent [of "[''ORDERS'', ''SALES.ORDERS'', ''T1'']"] by blast
  have "remove_redundancy [''ORDERS'', ''SALES.ORDERS'', ''T1''] = Inr {''SALES.ORDERS'', ''T1''}"
    by code_simp
  with R(1) have eq: "set [''T1'', ''SALES.ORDERS''] = R"
    by auto
  with R show ?thesis
    by auto
qed

lemma category_of_table: "category_of t = first_prefix_category t"
  by (simp add: category_of_def first_prefix_category_def prefix_table_def other_label_def)

lemma categorize_loop_eq:
  "categorize_loop xs m =
     Inr (\<lambda>label. let new = filter (\<lambda>x. category_of (last_segment x) = label) xs
                   in if new = [] then m label
                      else Some ((case m label of None \<Rightarrow> [] | Some l \<Rightarrow> l) @ new))"
proof (induction xs arbitrary: m)
  case Nil
  show ?case by simp
next
  case (Cons x xs)
  show ?case
    by (simp add: Cons.IH index_last_split) (auto simp: fun_eq_iff append_to_def Let_def)
qed

lemma categorize_eq:
  "categorize objects =
     Inr (\<lambda>label. let new = filter (\<lambda>x. category_of (last_segment x) = label) objects
                   in if new = [] then None else Some new)"
  by (auto simp: categorize_def categorize_loop_eq Let_def fun_eq_iff)

text \<open>
  C3. Every name of the input is in the list of exactly one category, the one of the first
  prefix in the table that its final dot-segment starts with (the catch-all when there is
  none); no list is empty or holds a name that is not in the input, and no name is listed
  twice when the input has none twice. \<open>LP_DW_STAGE\<close> goes to \<open>LP_OBJECTS\<close>.
\<close>

theorem categorize_exactly_one:
  "\<exists>categories. categorize objects = Inr categories
     \<and> (\<forall>x\<in>set objects. \<forall>label.
           (\<exists>l. categories label = Some l \<and> x \<in> set l)
             \<longleftrightarrow> label = first_prefix_category (last_segment x))
     \<and> (\<forall>label l. categories label = Some l \<longrightarrow> l \<noteq> [] \<and> set l \<subseteq> set objects)
     \<and> (distinct objects \<longrightarrow> (\<forall>label l. categories label = Some l \<longrightarrow> distinct l))
     \<and> first_prefix_category ''LP_DW_STAGE'' = ''LP_OBJECTS''"
proof -
  let ?new = "\<lambda>label. filter (\<lambda>x. category_of (last_segment x) = label) objects"
  let ?c = "\<lambda>label. if ?new label = [] then None else Some (?new label)"
  have 1: "categorize objects = Inr ?c"
    by (simp add: categorize_eq Let_def)
  have 2: "(\<exists>l. ?c label = Some l \<and> x \<in> set l) \<longleftrightarrow> label = first_prefix_category (last_segment x)"
    if "x \<in> set objects" for x label
    using that by (auto simp: category_of_table filter_empty_conv)
  have 3: "l \<noteq> [] \<and> set l \<subseteq> set objects" if "?c label = Some l" for label l
    using that by (auto split: if_splits)
  have 4: "distinct l" if "distinct objects" "?c label = Some l" for label l
    using that by (auto split: if_splits)
  have 5: "first_prefix_category ''LP_DW_STAGE'' = ''LP_OBJECTS''"
    by (simp add: first_prefix_category_def prefix_table_def startswith_def)
  show ?thesis
    apply (rule exI [of _ ?c])
    apply (intro conjI)
    subgoal by (rule 1)
    subgoal using 2 by blast
    subgoal using 3 by blast
    subgoal using 4 by blast
    subgoal by (rule 5)
    done
qed

theorem categorize_exactly_one_witness:
  "\<exists>categories. categorize [''S.LP_DW_STAGE'', ''DW_X'', ''FOO''] = Inr categories
     \<and> (\<exists>l. categories ''LP_OBJECTS'' = Some l \<and> ''S.LP_DW_STAGE'' \<in> set l)
     \<and> \<not> (\<exists>l. categories ''DW_OBJECTS'' = Some l \<and> ''S.LP_DW_STAGE'' \<in> set l)
     \<and> (\<exists>l. categories ''DW_OBJECTS'' = Some l \<and> distinct l \<and> set l \<subseteq> {''S.LP_DW_STAGE'', ''DW_X'', ''FOO''})"
proof -
  let ?xs = "[''S.LP_DW_STAGE'', ''DW_X'', ''FOO'']"
  obtain c where c: "categorize ?xs = Inr c"
    "\<forall>x\<in>set ?xs. \<forall>label. (\<exists>l. c label = Some l \<and> x \<in> set l)
             \<longleftrightarrow> label = first_prefix_category (last_segment x)"
    "\<forall>label l. c label = Some l \<longrightarrow> l \<noteq> [] \<and> set l \<subseteq> set ?xs"
    "distinct ?xs \<longrightarrow> (\<forall>label l. c label = Some l \<longrightarrow> distinct l)"
    using categorize_exactly_one [of ?xs] by blast
  have d: "distinct ?xs" by simp
  have s1: "first_prefix_category (last_segment ''S.LP_DW_STAGE'') = ''LP_OBJECTS''"
    by code_simp
  have s2: "first_prefix_category (last_segment ''DW_X'') = ''DW_OBJECTS''"
    by code_simp
  have m1: "''S.LP_DW_STAGE'' \<in> set ?xs" and m2: "''DW_X'' \<in> set ?xs" by simp_all
  have c1: "(\<exists>l. c label = Some l \<and> ''S.LP_DW_STAGE'' \<in> set l) \<longleftrightarrow> label = ''LP_OBJECTS''" for label
    using bspec [OF c(2) m1, THEN spec, of label] by (simp only: s1)
  have c2: "(\<exists>l. c label = Some l \<and> ''DW_X'' \<in> set l) \<longleftrightarrow> label = ''DW_OBJECTS''" for label
    using bspec [OF c(2) m2, THEN spec, of label] by (simp only: s2)
  have a: "\<exists>l. c ''LP_OBJECTS'' = Some l \<and> ''S.LP_DW_STAGE'' \<in> set l"
    using c1 [of "''LP_OBJECTS''"] by (simp only: simp_thms)
  have ne: "''DW_OBJECTS'' \<noteq> ''LP_OBJECTS''"
    by simp
  have b: "\<not> (\<exists>l. c ''DW_OBJECTS'' = Some l \<and> ''S.LP_DW_STAGE'' \<in> set l)"
    using c1 [of "''DW_OBJECTS''"] ne by (simp only: simp_thms)
  obtain l where l: "c ''DW_OBJECTS'' = Some l"
    using c2 [of "''DW_OBJECTS''"] by (auto simp only: simp_thms)
  have "l \<noteq> [] \<and> set l \<subseteq> set ?xs"
    by (rule c(3) [rule_format, OF l])
  moreover have "distinct l"
    by (rule c(4) [rule_format, OF d l])
  ultimately have "distinct l \<and> set l \<subseteq> {''S.LP_DW_STAGE'', ''DW_X'', ''FOO''}"
    by simp
  with l have e: "\<exists>l. c ''DW_OBJECTS'' = Some l \<and> distinct l \<and> set l \<subseteq> {''S.LP_DW_STAGE'', ''DW_X'', ''FOO''}"
    by (intro exI conjI) (rule l, simp_all)
  show ?thesis
    by (rule exI [of _ c]) (intro conjI c(1) a b e)
qed

text \<open>
  C8. On the empty text the cleaned text is empty, no object is extracted, the categories
  of no object are a dictionary with no entry, and no procedure is found; none of the calls
  raises.
\<close>

theorem empty_input:
  "clean_sql [] = [] \<and> extract_objects (clean_sql []) = Inr {} \<and> categorize [] = Inr Map.empty
     \<and> extract_stored_procedures (clean_sql []) = [] \<and> extract_stored_procedures [] = []"
proof -
  have "clean_sql [] = []"
    by code_simp
  moreover have "extract_objects [] = Inr {}"
    by code_simp
  moreover have "categorize [] = Inr Map.empty"
    by (simp add: categorize_def)
  moreover have "extract_stored_procedures [] = []"
    by code_simp
  ultimately show ?thesis
    by simp
qed

text \<open>
  C10. The pattern of a procedure definition has no \<open>\b\<close> before \<open>create\<close>:
  \<open>recreate procedure foo\<close> gives \<open>FOO\<close>, whereas the call pattern, which
  has one, finds nothing in \<open>myexec foo\<close>.
\<close>

theorem create_not_anchored:
  "extract_stored_procedures ''recreate procedure foo'' = [''FOO'']
     \<and> extract_stored_procedures ''myexec foo'' = []
     \<and> extract_stored_procedures ''exec foo'' = [''FOO'']"
  by code_simp

end
